theory Spec2Isabelle
  imports Complex_Main
begin

section \<open>Data model (types file of the package)\<close>

text \<open>
  Go pointers to values that are only copied and tested against \<open>nil\<close> are modelled as
  \<open>option\<close>: \<open>None\<close> is the nil pointer, \<open>Some v\<close> a pointer to \<open>v\<close>. No function of
  the package writes through such a pointer, so aliasing cannot be observed.

  A \<open>float64\<close> that was decoded from JSON is finite; the package only copies such numbers
  and compares them with zero, so they are modelled as \<open>real\<close>. Go's \<open>int\<close> and \<open>int64\<close>
  fields are modelled as \<open>int\<close>; no arithmetic is done on them except in the calendar
  conversion, where the wrap-around is written out.
\<close>

type_synonym float64 = real

record PriceValue =
  Raw :: float64
  Fmt :: string
  LongFmt :: string

record YahooTickerInfo =
  MaxAge :: int
  PreMarketChange :: "PriceValue option"
  PreMarketPrice :: "PriceValue option"
  PreMarketSource :: string
  PostMarketChangePercent :: "PriceValue option"
  PostMarketChange :: "PriceValue option"
  PostMarketTime :: int
  PostMarketPrice :: "PriceValue option"
  PostMarketSource :: string
  RegularMarketChangePercent :: "PriceValue option"
  RegularMarketChange :: "PriceValue option"
  RegularMarketTime :: int
  PriceHint :: "PriceValue option"
  RegularMarketPrice :: "PriceValue option"
  RegularMarketDayHigh :: "PriceValue option"
  RegularMarketDayLow :: "PriceValue option"
  RegularMarketVolume :: "PriceValue option"
  AverageDailyVolume10Day :: "PriceValue option"
  AverageDailyVolume3Month :: "PriceValue option"
  RegularMarketPreviousClose :: "PriceValue option"
  RegularMarketSource :: string
  RegularMarketOpen :: "PriceValue option"
  StrikePrice :: "PriceValue option"
  OpenInterest :: "PriceValue option"
  Exchange :: string
  ExchangeName :: string
  ExchangeDataDelayedBy :: int
  MarketState :: string
  QuoteType :: string
  Symbol :: string
  UnderlyingSymbol :: "string option"
  ShortName :: string
  LongName :: string
  Currency :: string
  QuoteSourceName :: string
  CurrencySymbol :: string
  FromCurrency :: "string option"
  ToCurrency :: "string option"
  LastMarket :: "string option"
  Volume24Hr :: "PriceValue option"
  VolumeAllCurrencies :: "PriceValue option"
  CirculatingSupply :: "PriceValue option"
  MarketCap :: "PriceValue option"

text \<open>\<open>PriceData\<close>: one price bar; every component is a nullable pointer.\<close>

record PriceData =
  Open :: "float64 option"
  High :: "float64 option"
  Low :: "float64 option"
  Close :: "float64 option"
  Volume :: "int option"

text \<open>
  Field names are global in a theory, so the fields of the remaining structs carry a
  prefix naming their struct: \<open>fr_\<close> for \<open>FinancialRatios\<close>, \<open>fs_\<close> for
  \<open>FinancialSummary\<close>, \<open>sd_\<close> for the anonymous \<open>summaryDetail\<close> struct, and so on.
\<close>

record FinancialRatios =
  fr_PriceToEarningsRatio :: "PriceValue option"
  fr_PriceToBookRatio :: "PriceValue option"
  fr_PriceToSalesRatio :: "PriceValue option"
  fr_PriceToEbitda :: "PriceValue option"
  fr_EnterpriseToRevenue :: "PriceValue option"
  fr_EnterpriseToEbitda :: "PriceValue option"
  fr_ReturnOnEquity :: "PriceValue option"
  fr_ReturnOnAssets :: "PriceValue option"
  fr_GrossMargins :: "PriceValue option"
  fr_EbitdaMargins :: "PriceValue option"
  fr_OperatingMargins :: "PriceValue option"
  fr_ProfitMargins :: "PriceValue option"
  fr_CurrentRatio :: "PriceValue option"
  fr_QuickRatio :: "PriceValue option"
  fr_DebtToEquity :: "PriceValue option"
  fr_TotalDebtToCapital :: "PriceValue option"
  fr_EarningsGrowth :: "PriceValue option"
  fr_RevenueGrowth :: "PriceValue option"
  fr_EarningsPerShare :: "PriceValue option"
  fr_BookValuePerShare :: "PriceValue option"
  fr_DividendRate :: "PriceValue option"
  fr_DividendYield :: "PriceValue option"

record FinancialSummary =
  fs_MaxAge :: int
  fs_MarketCap :: "PriceValue option"
  fs_EnterpriseValue :: "PriceValue option"
  fs_ForwardPE :: "PriceValue option"
  fs_TrailingPE :: "PriceValue option"
  fs_PegRatio :: "PriceValue option"
  fs_PriceToSalesTrailing12Months :: "PriceValue option"
  fs_PriceToBook :: "PriceValue option"
  fs_Beta :: "PriceValue option"
  fs_FiftyTwoWeekLow :: "PriceValue option"
  fs_FiftyTwoWeekHigh :: "PriceValue option"
  fs_FiftyDayAverage :: "PriceValue option"
  fs_TwoHundredDayAverage :: "PriceValue option"

record IncomeStatement =
  is_TotalRevenue :: "PriceValue option"
  is_GrossProfit :: "PriceValue option"
  is_OperatingIncome :: "PriceValue option"
  is_NetIncome :: "PriceValue option"
  is_Ebitda :: "PriceValue option"
  is_EarningsPerShare :: "PriceValue option"
  is_DilutedEPS :: "PriceValue option"

record BalanceSheet =
  bs_TotalAssets :: "PriceValue option"
  bs_TotalLiabilities :: "PriceValue option"
  bs_TotalEquity :: "PriceValue option"
  bs_TotalDebt :: "PriceValue option"
  bs_Cash :: "PriceValue option"
  bs_ShortTermDebt :: "PriceValue option"
  bs_LongTermDebt :: "PriceValue option"
  bs_BookValuePerShare :: "PriceValue option"

record CashFlow =
  cf_OperatingCashFlow :: "PriceValue option"
  cf_FreeCashFlow :: "PriceValue option"
  cf_CapitalExpenditures :: "PriceValue option"
  cf_DividendsPaid :: "PriceValue option"

record FinancialData =
  Ratios :: FinancialRatios
  Summary :: FinancialSummary
  fd_IncomeStatement :: IncomeStatement
  fd_BalanceSheet :: BalanceSheet
  fd_CashFlow :: CashFlow

text \<open>The anonymous structs nested in \<open>YahooFinancialResponse\<close>.\<close>

record SummaryDetail =
  sd_MarketCap :: "PriceValue option"
  sd_ForwardPE :: "PriceValue option"
  sd_TrailingPE :: "PriceValue option"
  sd_PriceToSalesTrailing12Months :: "PriceValue option"
  sd_PriceToBook :: "PriceValue option"
  sd_Beta :: "PriceValue option"
  sd_DividendRate :: "PriceValue option"
  sd_DividendYield :: "PriceValue option"

record IncomeStatementEntry =
  ise_EndDate :: "PriceValue option"
  ise_TotalRevenue :: "PriceValue option"
  ise_GrossProfit :: "PriceValue option"
  ise_OperatingIncome :: "PriceValue option"
  ise_NetIncome :: "PriceValue option"
  ise_Ebitda :: "PriceValue option"

record BalanceSheetEntry =
  bse_EndDate :: "PriceValue option"
  bse_TotalAssets :: "PriceValue option"
  bse_TotalLiab :: "PriceValue option"
  bse_TotalStockholderEquity :: "PriceValue option"
  bse_TotalDebt :: "PriceValue option"
  bse_Cash :: "PriceValue option"

record CashflowEntry =
  cfe_EndDate :: "PriceValue option"
  cfe_TotalCashFromOperatingActivities :: "PriceValue option"
  cfe_CapitalExpenditures :: "PriceValue option"
  cfe_FreeCashFlow :: "PriceValue option"
  cfe_DividendsPaid :: "PriceValue option"

text \<open>
  A history module is a pointer to a struct holding one slice; the pointer is the
  \<open>option\<close>, the slice the list (a nil slice and an empty slice both have length 0).
\<close>

record FinancialResult =
  DefaultKeyStatistics :: "FinancialSummary option"
  FinancialData :: "FinancialRatios option"
  SummaryDetail :: "SummaryDetail option"
  IncomeStatementHistory :: "IncomeStatementEntry list option"
  BalanceSheetHistory :: "BalanceSheetEntry list option"
  CashflowStatementHistory :: "CashflowEntry list option"

section \<open>Zero values\<close>

definition zero_FinancialRatios :: FinancialRatios where
  "zero_FinancialRatios = \<lparr>
     fr_PriceToEarningsRatio = None, fr_PriceToBookRatio = None, fr_PriceToSalesRatio = None,
     fr_PriceToEbitda = None, fr_EnterpriseToRevenue = None, fr_EnterpriseToEbitda = None,
     fr_ReturnOnEquity = None, fr_ReturnOnAssets = None, fr_GrossMargins = None,
     fr_EbitdaMargins = None, fr_OperatingMargins = None, fr_ProfitMargins = None,
     fr_CurrentRatio = None, fr_QuickRatio = None, fr_DebtToEquity = None,
     fr_TotalDebtToCapital = None, fr_EarningsGrowth = None, fr_RevenueGrowth = None,
     fr_EarningsPerShare = None, fr_BookValuePerShare = None, fr_DividendRate = None,
     fr_DividendYield = None \<rparr>"

section \<open>Module merge\<close>

text \<open>
  \<open>extractFinancialRatios\<close>: three passes over the local \<open>ratios\<close>, each guarded by the
  nil test of its module, in the order of the source.
\<close>

definition extractFinancialRatios :: "FinancialResult \<Rightarrow> FinancialRatios" where
  "extractFinancialRatios result =
    (let ratios = zero_FinancialRatios;
         ratios = (case SummaryDetail result of
                     None \<Rightarrow> ratios
                   | Some sd \<Rightarrow> ratios\<lparr>
                       fr_PriceToEarningsRatio := sd_TrailingPE sd,
                       fr_PriceToBookRatio := sd_PriceToBook sd,
                       fr_PriceToSalesRatio := sd_PriceToSalesTrailing12Months sd,
                       fr_DividendRate := sd_DividendRate sd,
                       fr_DividendYield := sd_DividendYield sd \<rparr>);
         ratios = (case FinancialData result of
                     None \<Rightarrow> ratios
                   | Some fd \<Rightarrow> ratios\<lparr>
                       fr_ReturnOnEquity := fr_ReturnOnEquity fd,
                       fr_ReturnOnAssets := fr_ReturnOnAssets fd,
                       fr_GrossMargins := fr_GrossMargins fd,
                       fr_EbitdaMargins := fr_EbitdaMargins fd,
                       fr_OperatingMargins := fr_OperatingMargins fd,
                       fr_ProfitMargins := fr_ProfitMargins fd,
                       fr_CurrentRatio := fr_CurrentRatio fd,
                       fr_QuickRatio := fr_QuickRatio fd,
                       fr_DebtToEquity := fr_DebtToEquity fd,
                       fr_TotalDebtToCapital := fr_TotalDebtToCapital fd,
                       fr_EarningsGrowth := fr_EarningsGrowth fd,
                       fr_RevenueGrowth := fr_RevenueGrowth fd,
                       fr_EarningsPerShare := fr_EarningsPerShare fd,
                       fr_BookValuePerShare := fr_BookValuePerShare fd \<rparr>);
         ratios = (case DefaultKeyStatistics result of
                     None \<Rightarrow> ratios
                   | Some dks \<Rightarrow>
                       (let ratios = (if fr_PriceToEarningsRatio ratios = None
                                      then ratios\<lparr>fr_PriceToEarningsRatio := fs_TrailingPE dks\<rparr>
                                      else ratios);
                            ratios = (if fr_PriceToBookRatio ratios = None
                                      then ratios\<lparr>fr_PriceToBookRatio := fs_PriceToBook dks\<rparr>
                                      else ratios)
                        in ratios))
     in ratios)"


definition zero_FinancialSummary :: FinancialSummary where
  "zero_FinancialSummary = \<lparr>
     fs_MaxAge = 0, fs_MarketCap = None, fs_EnterpriseValue = None, fs_ForwardPE = None,
     fs_TrailingPE = None, fs_PegRatio = None, fs_PriceToSalesTrailing12Months = None,
     fs_PriceToBook = None, fs_Beta = None, fs_FiftyTwoWeekLow = None,
     fs_FiftyTwoWeekHigh = None, fs_FiftyDayAverage = None, fs_TwoHundredDayAverage = None \<rparr>"

text \<open>
  \<open>extractFinancialSummary\<close>: the struct behind \<open>DefaultKeyStatistics\<close> is copied by value,
  then six fields are filled from \<open>SummaryDetail\<close> where they are still nil.
\<close>

definition extractFinancialSummary :: "FinancialResult \<Rightarrow> FinancialSummary" where
  "extractFinancialSummary result =
    (let summary = zero_FinancialSummary;
         summary = (case DefaultKeyStatistics result of
                      None \<Rightarrow> summary
                    | Some dks \<Rightarrow> dks);
         summary = (case SummaryDetail result of
                      None \<Rightarrow> summary
                    | Some sd \<Rightarrow>
                       (let summary = (if fs_MarketCap summary = None
                                       then summary\<lparr>fs_MarketCap := sd_MarketCap sd\<rparr>
                                       else summary);
                            summary = (if fs_ForwardPE summary = None
                                       then summary\<lparr>fs_ForwardPE := sd_ForwardPE sd\<rparr>
                                       else summary);
                            summary = (if fs_TrailingPE summary = None
                                       then summary\<lparr>fs_TrailingPE := sd_TrailingPE sd\<rparr>
                                       else summary);
                            summary = (if fs_PriceToSalesTrailing12Months summary = None
                                       then summary\<lparr>fs_PriceToSalesTrailing12Months :=
                                                       sd_PriceToSalesTrailing12Months sd\<rparr>
                                       else summary);
                            summary = (if fs_PriceToBook summary = None
                                       then summary\<lparr>fs_PriceToBook := sd_PriceToBook sd\<rparr>
                                       else summary);
                            summary = (if fs_Beta summary = None
                                       then summary\<lparr>fs_Beta := sd_Beta sd\<rparr>
                                       else summary)
                        in summary))
     in summary)"

definition zero_IncomeStatement :: IncomeStatement where
  "zero_IncomeStatement = \<lparr>
     is_TotalRevenue = None, is_GrossProfit = None, is_OperatingIncome = None,
     is_NetIncome = None, is_Ebitda = None, is_EarningsPerShare = None, is_DilutedEPS = None \<rparr>"

text \<open>
  The statement extractors read element 0 of the history slice behind the guard
  \<open>len(...) > 0\<close>; the guard and the read are one case distinction on the list.
\<close>

definition extractIncomeStatement :: "FinancialResult \<Rightarrow> IncomeStatement" where
  "extractIncomeStatement result =
    (let income = zero_IncomeStatement;
         income = (case IncomeStatementHistory result of
                     Some (latest # _) \<Rightarrow> income\<lparr>
                       is_TotalRevenue := ise_TotalRevenue latest,
                       is_GrossProfit := ise_GrossProfit latest,
                       is_OperatingIncome := ise_OperatingIncome latest,
                       is_NetIncome := ise_NetIncome latest,
                       is_Ebitda := ise_Ebitda latest \<rparr>
                   | _ \<Rightarrow> income);
         income = (case FinancialData result of
                     None \<Rightarrow> income
                   | Some fd \<Rightarrow> income\<lparr>is_EarningsPerShare := fr_EarningsPerShare fd\<rparr>)
     in income)"

definition zero_BalanceSheet :: BalanceSheet where
  "zero_BalanceSheet = \<lparr>
     bs_TotalAssets = None, bs_TotalLiabilities = None, bs_TotalEquity = None,
     bs_TotalDebt = None, bs_Cash = None, bs_ShortTermDebt = None, bs_LongTermDebt = None,
     bs_BookValuePerShare = None \<rparr>"

definition extractBalanceSheet :: "FinancialResult \<Rightarrow> BalanceSheet" where
  "extractBalanceSheet result =
    (let balance = zero_BalanceSheet;
         balance = (case BalanceSheetHistory result of
                      Some (latest # _) \<Rightarrow> balance\<lparr>
                        bs_TotalAssets := bse_TotalAssets latest,
                        bs_TotalLiabilities := bse_TotalLiab latest,
                        bs_TotalEquity := bse_TotalStockholderEquity latest,
                        bs_TotalDebt := bse_TotalDebt latest,
                        bs_Cash := bse_Cash latest \<rparr>
                    | _ \<Rightarrow> balance);
         balance = (case FinancialData result of
                      None \<Rightarrow> balance
                    | Some fd \<Rightarrow> balance\<lparr>bs_BookValuePerShare := fr_BookValuePerShare fd\<rparr>)
     in balance)"

definition zero_CashFlow :: CashFlow where
  "zero_CashFlow = \<lparr>
     cf_OperatingCashFlow = None, cf_FreeCashFlow = None, cf_CapitalExpenditures = None,
     cf_DividendsPaid = None \<rparr>"

definition extractCashFlow :: "FinancialResult \<Rightarrow> CashFlow" where
  "extractCashFlow result =
    (let cashflow = zero_CashFlow;
         cashflow = (case CashflowStatementHistory result of
                       Some (latest # _) \<Rightarrow> cashflow\<lparr>
                         cf_OperatingCashFlow := cfe_TotalCashFromOperatingActivities latest,
                         cf_CapitalExpenditures := cfe_CapitalExpenditures latest,
                         cf_FreeCashFlow := cfe_FreeCashFlow latest,
                         cf_DividendsPaid := cfe_DividendsPaid latest \<rparr>
                     | _ \<Rightarrow> cashflow)
     in cashflow)"

definition transformFinancialData :: "FinancialResult \<Rightarrow> FinancialData" where
  "transformFinancialData result = \<lparr>
     Ratios = extractFinancialRatios result,
     Summary = extractFinancialSummary result,
     fd_IncomeStatement = extractIncomeStatement result,
     fd_BalanceSheet = extractBalanceSheet result,
     fd_CashFlow = extractCashFlow result \<rparr>"

subsection \<open>Dividend information\<close>

record DividendInfo =
  DividendRate :: "PriceValue option"
  DividendYield :: "PriceValue option"
  DividendsPaid :: "PriceValue option"
  PayoutRatio :: "PriceValue option"
  ExDividendDate :: "PriceValue option"
  DividendDate :: "PriceValue option"
  FiveYearAvgDividendYield :: "PriceValue option"

text \<open>The anonymous structs of the dividend response (\<open>FetchDividendInfo\<close>).\<close>

record DivSummaryDetail =
  dsd_DividendRate :: "PriceValue option"
  dsd_DividendYield :: "PriceValue option"
  dsd_ExDividendDate :: "PriceValue option"
  dsd_DividendDate :: "PriceValue option"
  dsd_PayoutRatio :: "PriceValue option"
  dsd_FiveYearAvgDividendYield :: "PriceValue option"

record DivKeyStatistics =
  dks_DividendRate :: "PriceValue option"
  dks_DividendYield :: "PriceValue option"
  dks_PayoutRatio :: "PriceValue option"
  dks_FiveYearAvgDividendYield :: "PriceValue option"

record DivCashflowEntry =
  dce_DividendsPaid :: "PriceValue option"

record DividendResult =
  dr_SummaryDetail :: "DivSummaryDetail option"
  dr_DefaultKeyStatistics :: "DivKeyStatistics option"
  dr_CashflowStatementHistory :: "DivCashflowEntry list option"

definition zero_DividendInfo :: DividendInfo where
  "zero_DividendInfo = \<lparr>
     DividendRate = None, DividendYield = None, DividendsPaid = None, PayoutRatio = None,
     ExDividendDate = None, DividendDate = None, FiveYearAvgDividendYield = None \<rparr>"

definition extractDividendInfo :: "DividendResult \<Rightarrow> DividendInfo" where
  "extractDividendInfo result =
    (let dividend = zero_DividendInfo;
         dividend = (case dr_SummaryDetail result of
                       None \<Rightarrow> dividend
                     | Some sd \<Rightarrow> dividend\<lparr>
                         DividendRate := dsd_DividendRate sd,
                         DividendYield := dsd_DividendYield sd,
                         ExDividendDate := dsd_ExDividendDate sd,
                         DividendDate := dsd_DividendDate sd,
                         PayoutRatio := dsd_PayoutRatio sd,
                         FiveYearAvgDividendYield := dsd_FiveYearAvgDividendYield sd \<rparr>);
         dividend = (case dr_DefaultKeyStatistics result of
                       None \<Rightarrow> dividend
                     | Some dks \<Rightarrow>
                        (let dividend = (if DividendRate dividend = None
                                         then dividend\<lparr>DividendRate := dks_DividendRate dks\<rparr>
                                         else dividend);
                             dividend = (if DividendYield dividend = None
                                         then dividend\<lparr>DividendYield := dks_DividendYield dks\<rparr>
                                         else dividend);
                             dividend = (if PayoutRatio dividend = None
                                         then dividend\<lparr>PayoutRatio := dks_PayoutRatio dks\<rparr>
                                         else dividend);
                             dividend = (if FiveYearAvgDividendYield dividend = None
                                         then dividend\<lparr>FiveYearAvgDividendYield :=
                                                         dks_FiveYearAvgDividendYield dks\<rparr>
                                         else dividend)
                         in dividend));
         dividend = (case dr_CashflowStatementHistory result of
                       Some (latest # _) \<Rightarrow> dividend\<lparr>DividendsPaid := dce_DividendsPaid latest\<rparr>
                     | _ \<Rightarrow> dividend)
     in dividend)"


section \<open>Ticker operations\<close>

text \<open>
  Every fetch operation performs one HTTP exchange and decodes the body into its response
  type before it looks at the data. The exchange is the external collaborator; its
  outcome is the input of the model. The constructors follow the order in which the
  source tests for failure: the request itself, reading the body, decoding the JSON.
  Each carries the message of the underlying Go error.
\<close>

datatype 'r fetched =
    TransportError string
  | ReadError string
  | DecodeError string
  | Decoded 'r

text \<open>
  A Go \<open>error\<close> result is modelled by its message: \<open>None\<close> is the nil error. A fetch
  operation returns the pair of the source, value first.
\<close>

type_synonym error = "string option"

text \<open>What \<open>encoding/json\<close> stores in a field of type \<open>interface{}\<close>.\<close>

datatype json =
    JNull | JBool bool | JNumber real | JString string
  | JArray "json list" | JObject "(string \<times> json) list"

record InfoResult =
  Price :: YahooTickerInfo

record YahooInfoResponse =
  info_Result :: "InfoResult list"
  info_Error :: json

record YahooFinancialResponse =
  fin_Result :: "FinancialResult list"
  fin_Error :: json

record DividendResponse =
  div_Result :: "DividendResult list"
  div_Error :: json

definition zero_YahooTickerInfo :: YahooTickerInfo where
  "zero_YahooTickerInfo = \<lparr>
     MaxAge = 0, PreMarketChange = None, PreMarketPrice = None, PreMarketSource = [],
     PostMarketChangePercent = None, PostMarketChange = None, PostMarketTime = 0,
     PostMarketPrice = None, PostMarketSource = [], RegularMarketChangePercent = None,
     RegularMarketChange = None, RegularMarketTime = 0, PriceHint = None,
     RegularMarketPrice = None, RegularMarketDayHigh = None, RegularMarketDayLow = None,
     RegularMarketVolume = None, AverageDailyVolume10Day = None,
     AverageDailyVolume3Month = None, RegularMarketPreviousClose = None,
     RegularMarketSource = [], RegularMarketOpen = None, StrikePrice = None,
     OpenInterest = None, Exchange = [], ExchangeName = [], ExchangeDataDelayedBy = 0,
     MarketState = [], QuoteType = [], Symbol = [], UnderlyingSymbol = None, ShortName = [],
     LongName = [], Currency = [], QuoteSourceName = [], CurrencySymbol = [],
     FromCurrency = None, ToCurrency = None, LastMarket = None, Volume24Hr = None,
     VolumeAllCurrencies = None, CirculatingSupply = None, MarketCap = None \<rparr>"

definition zero_FinancialData :: FinancialData where
  "zero_FinancialData = \<lparr>
     Ratios = zero_FinancialRatios, Summary = zero_FinancialSummary,
     fd_IncomeStatement = zero_IncomeStatement, fd_BalanceSheet = zero_BalanceSheet,
     fd_CashFlow = zero_CashFlow \<rparr>"

definition zero_PriceValue :: PriceValue where
  "zero_PriceValue = \<lparr> Raw = 0, Fmt = [], LongFmt = [] \<rparr>"

text \<open>
  The first argument of every operation is the receiver's \<open>Symbol\<close>, the second the
  outcome of the exchange.
\<close>

definition FetchInformation :: "string \<Rightarrow> YahooInfoResponse fetched \<Rightarrow> YahooTickerInfo \<times> error" where
  "FetchInformation symbol f =
    (case f of
       TransportError err \<Rightarrow> (zero_YahooTickerInfo, Some err)
     | ReadError err \<Rightarrow> (zero_YahooTickerInfo, Some (''failed to read response body: '' @ err))
     | DecodeError err \<Rightarrow> (zero_YahooTickerInfo, Some (''failed to decode info JSON: '' @ err))
     | Decoded infoResponse \<Rightarrow>
        (case info_Result infoResponse of
           [] \<Rightarrow> (zero_YahooTickerInfo, Some (''no info found for symbol: '' @ symbol))
         | r # _ \<Rightarrow> (Price r, None)))"

definition FetchPriceValue :: "string \<Rightarrow> YahooInfoResponse fetched \<Rightarrow> PriceValue \<times> error" where
  "FetchPriceValue symbol f =
    (case FetchInformation symbol f of
       (_, Some err) \<Rightarrow> (zero_PriceValue, Some err)
     | (info, None) \<Rightarrow>
        (case RegularMarketPrice info of
           Some p \<Rightarrow> (p, None)
         | None \<Rightarrow> (zero_PriceValue,
                     Some (''regular market price not available for symbol: '' @ symbol))))"

text \<open>
  The operations on \<open>YahooFinancialResponse\<close> decode the body as a stream, so a failure
  to read it surfaces as a failure to decode.
\<close>

definition decode_failure :: "string \<Rightarrow> 'r fetched \<Rightarrow> (string + 'r)" where
  "decode_failure what f =
    (case f of
       TransportError err \<Rightarrow> Inl err
     | ReadError err \<Rightarrow> Inl (''failed to decode '' @ what @ '' JSON response: '' @ err)
     | DecodeError err \<Rightarrow> Inl (''failed to decode '' @ what @ '' JSON response: '' @ err)
     | Decoded r \<Rightarrow> Inr r)"

definition FetchFinancialData :: "string \<Rightarrow> YahooFinancialResponse fetched \<Rightarrow> FinancialData \<times> error" where
  "FetchFinancialData symbol f =
    (case decode_failure ''financial data'' f of
       Inl err \<Rightarrow> (zero_FinancialData, Some err)
     | Inr financialResponse \<Rightarrow>
        (case fin_Result financialResponse of
           [] \<Rightarrow> (zero_FinancialData, Some (''no financial data found for symbol: '' @ symbol))
         | result # _ \<Rightarrow> (transformFinancialData result, None)))"

definition FetchFinancialRatios :: "string \<Rightarrow> YahooFinancialResponse fetched \<Rightarrow> FinancialRatios \<times> error" where
  "FetchFinancialRatios symbol f =
    (case decode_failure ''financial ratios'' f of
       Inl err \<Rightarrow> (zero_FinancialRatios, Some err)
     | Inr financialResponse \<Rightarrow>
        (case fin_Result financialResponse of
           [] \<Rightarrow> (zero_FinancialRatios, Some (''no financial ratios found for symbol: '' @ symbol))
         | result # _ \<Rightarrow> (extractFinancialRatios result, None)))"

definition FetchKeyStatistics :: "string \<Rightarrow> YahooFinancialResponse fetched \<Rightarrow> FinancialSummary \<times> error" where
  "FetchKeyStatistics symbol f =
    (case decode_failure ''key statistics'' f of
       Inl err \<Rightarrow> (zero_FinancialSummary, Some err)
     | Inr financialResponse \<Rightarrow>
        (case fin_Result financialResponse of
           [] \<Rightarrow> (zero_FinancialSummary, Some (''no key statistics found for symbol: '' @ symbol))
         | result # _ \<Rightarrow> (extractFinancialSummary result, None)))"

definition FetchIncomeStatement :: "string \<Rightarrow> YahooFinancialResponse fetched \<Rightarrow> IncomeStatement \<times> error" where
  "FetchIncomeStatement symbol f =
    (case decode_failure ''income statement'' f of
       Inl err \<Rightarrow> (zero_IncomeStatement, Some err)
     | Inr financialResponse \<Rightarrow>
        (case fin_Result financialResponse of
           [] \<Rightarrow> (zero_IncomeStatement, Some (''no income statement found for symbol: '' @ symbol))
         | result # _ \<Rightarrow> (extractIncomeStatement result, None)))"

definition FetchBalanceSheet :: "string \<Rightarrow> YahooFinancialResponse fetched \<Rightarrow> BalanceSheet \<times> error" where
  "FetchBalanceSheet symbol f =
    (case decode_failure ''balance sheet'' f of
       Inl err \<Rightarrow> (zero_BalanceSheet, Some err)
     | Inr financialResponse \<Rightarrow>
        (case fin_Result financialResponse of
           [] \<Rightarrow> (zero_BalanceSheet, Some (''no balance sheet found for symbol: '' @ symbol))
         | result # _ \<Rightarrow> (extractBalanceSheet result, None)))"

definition FetchCashFlow :: "string \<Rightarrow> YahooFinancialResponse fetched \<Rightarrow> CashFlow \<times> error" where
  "FetchCashFlow symbol f =
    (case decode_failure ''cash flow'' f of
       Inl err \<Rightarrow> (zero_CashFlow, Some err)
     | Inr financialResponse \<Rightarrow>
        (case fin_Result financialResponse of
           [] \<Rightarrow> (zero_CashFlow, Some (''no cash flow found for symbol: '' @ symbol))
         | result # _ \<Rightarrow> (extractCashFlow result, None)))"

definition FetchDividendInfo :: "string \<Rightarrow> DividendResponse fetched \<Rightarrow> DividendInfo \<times> error" where
  "FetchDividendInfo symbol f =
    (case decode_failure ''dividend info'' f of
       Inl err \<Rightarrow> (zero_DividendInfo, Some err)
     | Inr financialResponse \<Rightarrow>
        (case div_Result financialResponse of
           [] \<Rightarrow> (zero_DividendInfo, Some (''no dividend info found for symbol: '' @ symbol))
         | result # _ \<Rightarrow> (extractDividendInfo result, None)))"

definition FetchCurrentDividendYield :: "string \<Rightarrow> DividendResponse fetched \<Rightarrow> float64 \<times> error" where
  "FetchCurrentDividendYield symbol f =
    (case FetchDividendInfo symbol f of
       (_, Some err) \<Rightarrow> (0, Some err)
     | (dividendInfo, None) \<Rightarrow>
        (case DividendYield dividendInfo of
           None \<Rightarrow> (0, Some (''dividend yield not available for symbol: '' @ symbol))
         | Some y \<Rightarrow> (Raw y, None)))"

definition FetchDividendRate :: "string \<Rightarrow> DividendResponse fetched \<Rightarrow> float64 \<times> error" where
  "FetchDividendRate symbol f =
    (case FetchDividendInfo symbol f of
       (_, Some err) \<Rightarrow> (0, Some err)
     | (dividendInfo, None) \<Rightarrow>
        (case DividendRate dividendInfo of
           None \<Rightarrow> (0, Some (''dividend rate not available for symbol: '' @ symbol))
         | Some r \<Rightarrow> (Raw r, None)))"

definition IsDividendPaying :: "string \<Rightarrow> DividendResponse fetched \<Rightarrow> bool \<times> error" where
  "IsDividendPaying symbol f =
    (case FetchDividendInfo symbol f of
       (_, Some err) \<Rightarrow> (False, Some err)
     | (dividendInfo, None) \<Rightarrow>
        ((case DividendRate dividendInfo of
            None \<Rightarrow> False
          | Some r \<Rightarrow> Raw r > 0), None))"


section \<open>Historical data\<close>

text \<open>
  \<open>YahooHistoryResponse\<close>: the chart result holds the timestamps and, under
  \<open>Indicators\<close>, the quote blocks with five parallel slices. The \<open>Meta\<close> struct of a
  chart result is never read by the package and is left out.
\<close>

record Quote =
  q_Open :: "float64 option list"
  q_High :: "float64 option list"
  q_Low :: "float64 option list"
  q_Close :: "float64 option list"
  q_Volume :: "int option list"

record ChartResult =
  Timestamp :: "int list"
  Indicators_Quote :: "Quote list"

record YahooHistoryResponse =
  Chart_Result :: "ChartResult list"
  Chart_Error :: json

subsection \<open>Go's \<open>time\<close> package: \<open>time.Unix(sec, 0).Format(layout)\<close>\<close>

text \<open>
  The keys are produced by the standard library. Its calendar arithmetic is written out
  here as the library computes it: the absolute second count is an unsigned 64-bit number
  counted from the year \<open>absoluteZeroYear\<close>, split into cycles of 400, 100, 4 and 1
  years. \<open>time.Unix\<close> yields a time in the local zone of the process; a \<open>Location\<close> maps
  a Unix time to the offset (seconds east of UTC) in force at that instant.
\<close>

type_synonym Location = "int \<Rightarrow> int"

definition UTC :: Location where
  "UTC = (\<lambda>_. 0)"

definition absoluteZeroYear :: int where
  "absoluteZeroYear = - 292277022399"

text \<open>\<open>unixToInternal + internalToAbsolute\<close>, in seconds.\<close>

definition unixToAbsolute :: int where
  "unixToAbsolute = 62135596800 + 9223371966579724800"

text \<open>\<open>Time.abs\<close>: the additions wrap in \<open>int64\<close> and the sum is converted to \<open>uint64\<close>.\<close>

definition abs_time :: "Location \<Rightarrow> int \<Rightarrow> nat" where
  "abs_time loc sec = nat ((sec + loc sec + unixToAbsolute) mod 2 ^ 64)"

definition isLeap :: "int \<Rightarrow> bool" where
  "isLeap year = (year mod 4 = 0 \<and> (year mod 100 \<noteq> 0 \<or> year mod 400 = 0))"

definition daysBefore :: "nat list" where
  "daysBefore = [0, 31, 59, 90, 120, 151, 181, 212, 243, 273, 304, 334, 365]"

text \<open>
  \<open>absDate\<close> takes the absolute second count (\<open>abs\<close> in the library). Called with
  \<open>full = false\<close> it returns the year and the day within the year, counted from 0
  (\<open>absYearDay\<close> here); called with \<open>full = true\<close> it goes on to the month (January
  is 1) and the day of the month.
\<close>

definition absYearDay :: "nat \<Rightarrow> int \<times> nat" where
  "absYearDay a =
    (let d = a div 86400;
         n = d div 146097;
         y = 400 * n;
         d = d - 146097 * n;
         n = d div 36524;
         n = n - n div 4;
         y = y + 100 * n;
         d = d - 36524 * n;
         n = d div 1461;
         y = y + 4 * n;
         d = d - 1461 * n;
         n = d div 365;
         n = n - n div 4;
         y = y + n;
         d = d - 365 * n
     in (int y + absoluteZeroYear, d))"

definition absDate :: "nat \<Rightarrow> int \<times> nat \<times> nat" where
  "absDate a =
    (case absYearDay a of (year, yday) \<Rightarrow>
       if isLeap year \<and> yday = 31 + 29 - 1 then (year, 2, 29)
       else
         (let day = (if isLeap year \<and> yday > 31 + 29 - 1 then yday - 1 else yday);
              month = day div 31;
              end = daysBefore ! (month + 1);
              (month, begin) = (if day \<ge> end then (month + 1, end)
                                else (month, daysBefore ! month));
              month = month + 1
          in (year, month, day - begin + 1)))"

text \<open>\<open>Time.Year\<close> of \<open>time.Unix(sec, 0)\<close>.\<close>

definition Year :: "Location \<Rightarrow> int \<Rightarrow> int" where
  "Year loc sec = fst (absYearDay (abs_time loc sec))"

text \<open>\<open>absClock\<close> returns hour, minute and second within the day.\<close>

definition absClock :: "nat \<Rightarrow> nat \<times> nat \<times> nat" where
  "absClock a =
    (let sec = a mod 86400;
         hour = sec div 3600;
         sec = sec - hour * 3600;
         mn = sec div 60;
         sec = sec - mn * 60
     in (hour, mn, sec))"

text \<open>
  \<open>appendInt\<close> writes a number in decimal, a minus sign first when it is negative, padded
  with zeros on the left to at least \<open>width\<close> digits: a wider number keeps all its digits.
\<close>

fun digits :: "nat \<Rightarrow> string" where
  "digits n = (if n < 10 then [''0123456789'' ! n]
               else digits (n div 10) @ [''0123456789'' ! (n mod 10)])"

declare digits.simps [simp del]

definition appendInt :: "int \<Rightarrow> nat \<Rightarrow> string" where
  "appendInt x width =
    (let ds = digits (nat \<bar>x\<bar>)
     in (if x < 0 then ''-'' else []) @ replicate (width - length ds) (CHR ''0'') @ ds)"

text \<open>The two layouts the package uses: \<open>"2006-01-02"\<close> and \<open>"2006-01-02 15:04:05"\<close>.\<close>

definition Format_date :: "Location \<Rightarrow> int \<Rightarrow> string" where
  "Format_date loc sec =
    (case absDate (abs_time loc sec) of (year, month, day) \<Rightarrow>
       appendInt year 4 @ ''-'' @ appendInt (int month) 2 @ ''-'' @ appendInt (int day) 2)"

definition Format_datetime :: "Location \<Rightarrow> int \<Rightarrow> string" where
  "Format_datetime loc sec =
    (case absDate (abs_time loc sec) of (year, month, day) \<Rightarrow>
     case absClock (abs_time loc sec) of (hour, mn, s) \<Rightarrow>
       appendInt year 4 @ ''-'' @ appendInt (int month) 2 @ ''-'' @ appendInt (int day) 2
       @ '' '' @ appendInt (int hour) 2 @ '':'' @ appendInt (int mn) 2
       @ '':'' @ appendInt (int s) 2)"

text \<open>\<open>strings.HasSuffix\<close>.\<close>

definition HasSuffix :: "string \<Rightarrow> string \<Rightarrow> bool" where
  "HasSuffix s suffix =
    (length s \<ge> length suffix \<and> drop (length s - length suffix) s = suffix)"

subsection \<open>\<open>transformHistoricalData\<close>\<close>

text \<open>
  Indexing a slice out of range panics in Go. The panic is a value of the model, so that
  the absence of out-of-range reads is a statement about the function's result.
\<close>

datatype panic = IndexOutOfRange

definition index :: "'a list \<Rightarrow> nat \<Rightarrow> panic + 'a" where
  "index xs i = (if i < length xs then Inr (xs ! i) else Inl IndexOutOfRange)"

definition bind_panic :: "panic + 'a \<Rightarrow> ('a \<Rightarrow> panic + 'b) \<Rightarrow> panic + 'b" where
  "bind_panic m f = (case m of Inl p \<Rightarrow> Inl p | Inr a \<Rightarrow> f a)"

text \<open>The guard of the loop: position \<open>i\<close> lies within all five slices.\<close>

definition within_bounds :: "Quote \<Rightarrow> nat \<Rightarrow> bool" where
  "within_bounds quote i =
    (i < length (q_Open quote) \<and> i < length (q_High quote) \<and> i < length (q_Low quote)
     \<and> i < length (q_Close quote) \<and> i < length (q_Volume quote))"

definition key_of :: "Location \<Rightarrow> string \<Rightarrow> int \<Rightarrow> string" where
  "key_of loc interval timestamp =
    (if HasSuffix interval ''d'' \<or> HasSuffix interval ''wk'' \<or> HasSuffix interval ''mo''
     then Format_date loc timestamp
     else Format_datetime loc timestamp)"

text \<open>The body of the \<open>range\<close> loop, for position \<open>i\<close> holding \<open>timestamp\<close>.\<close>

definition loop_body ::
  "Location \<Rightarrow> string \<Rightarrow> ChartResult \<Rightarrow> (string \<rightharpoonup> PriceData) \<Rightarrow> nat \<Rightarrow> int
     \<Rightarrow> panic + (string \<rightharpoonup> PriceData)" where
  "loop_body loc interval result d i timestamp =
    (let key = key_of loc interval timestamp
     in case Indicators_Quote result of
          [] \<Rightarrow> Inr d
        | quote # _ \<Rightarrow>
            if within_bounds quote i
            then bind_panic (index (q_Open quote) i) (\<lambda>op.
                 bind_panic (index (q_High quote) i) (\<lambda>hi.
                 bind_panic (index (q_Low quote) i) (\<lambda>lo.
                 bind_panic (index (q_Close quote) i) (\<lambda>cl.
                 bind_panic (index (q_Volume quote) i) (\<lambda>vol.
                   Inr (d(key \<mapsto> \<lparr> Open = op, High = hi, Low = lo, Close = cl,
                                     Volume = vol \<rparr>)))))))
            else Inr d)"

fun range_loop ::
  "((string \<rightharpoonup> PriceData) \<Rightarrow> nat \<Rightarrow> int \<Rightarrow> panic + (string \<rightharpoonup> PriceData))
     \<Rightarrow> nat \<Rightarrow> int list \<Rightarrow> (string \<rightharpoonup> PriceData) \<Rightarrow> panic + (string \<rightharpoonup> PriceData)" where
  "range_loop body i [] d = Inr d"
| "range_loop body i (timestamp # rest) d =
     (case body d i timestamp of
        Inl p \<Rightarrow> Inl p
      | Inr d' \<Rightarrow> range_loop body (i + 1) rest d')"

definition transformHistoricalData ::
  "Location \<Rightarrow> YahooHistoryResponse \<Rightarrow> string \<Rightarrow> panic + (string \<rightharpoonup> PriceData)" where
  "transformHistoricalData loc data interval =
    (let d = Map.empty
     in case Chart_Result data of
          [] \<Rightarrow> Inr d
        | result # _ \<Rightarrow> range_loop (loop_body loc interval result) 0 (Timestamp result) d)"

text \<open>
  \<open>FetchHistoricalData\<close> returns a nil map beside every error; \<open>None\<close> is the nil map.
  The range and the two period bounds only enter the request.
\<close>

definition FetchHistoricalData ::
  "Location \<Rightarrow> string \<Rightarrow> string \<Rightarrow> string \<Rightarrow> string \<Rightarrow> string \<Rightarrow> YahooHistoryResponse fetched
     \<Rightarrow> panic + ((string \<rightharpoonup> PriceData) option \<times> error)" where
  "FetchHistoricalData loc symbol rangeParam interval period1 period2 f =
    (let interval = (if interval = [] then ''1d'' else interval);
         rangeParam = (if rangeParam = [] then ''1y'' else rangeParam)
     in case decode_failure ''history data'' f of
          Inl err \<Rightarrow> Inr (None, Some err)
        | Inr historyResponse \<Rightarrow>
           (case Chart_Result historyResponse of
              [] \<Rightarrow> Inr (None, Some (''no data found for symbol: '' @ symbol))
            | _ \<Rightarrow> bind_panic (transformHistoricalData loc historyResponse interval)
                     (\<lambda>d. Inr (Some d, None))))"

section \<open>Session bootstrap\<close>

text \<open>
  \<open>Client\<close>: the cookies and the crumb of the session. The \<open>http.Client\<close> it holds is the
  transport and stays outside the model. \<open>getClient\<close> creates the one instance behind
  \<open>sync.Once\<close>; every caller works on that instance, which is the single \<open>client\<close> of
  the \<open>World\<close> below.
\<close>

type_synonym Cookie = string

record Client =
  cookies :: "Cookie list"
  crumb :: string

text \<open>
  The requests issued so far are logged in order. The network is the external
  collaborator: it answers the request with a given position in the log, \<open>None\<close>
  standing for a failed exchange (the request or the reading of the body).
\<close>

datatype Endpoint = CookieEndpoint | CrumbEndpoint | DataEndpoint

record Network =
  cookie_reply :: "nat \<Rightarrow> Cookie list option"
  crumb_reply :: "nat \<Rightarrow> string option"

record World =
  client :: Client
  requests :: "Endpoint list"

definition fresh :: World where
  "fresh = \<lparr> client = \<lparr> cookies = [], crumb = [] \<rparr>, requests = [] \<rparr>"

subsection \<open>One caller at a time\<close>

definition getCookie :: "Network \<Rightarrow> World \<Rightarrow> World" where
  "getCookie net w =
    (if length (cookies (client w)) > 0 then w
     else
       (let n = length (requests w);
            w = w\<lparr>requests := requests w @ [CookieEndpoint]\<rparr>
        in case cookie_reply net n of
             None \<Rightarrow> w
           | Some cs \<Rightarrow> w\<lparr>client := (client w)\<lparr>cookies := cs\<rparr>\<rparr>))"

definition getCrumb :: "Network \<Rightarrow> World \<Rightarrow> World" where
  "getCrumb net w =
    (if crumb (client w) \<noteq> [] then w
     else
       (let w = getCookie net w;
            n = length (requests w);
            w = w\<lparr>requests := requests w @ [CrumbEndpoint]\<rparr>
        in case crumb_reply net n of
             None \<Rightarrow> w
           | Some body \<Rightarrow> w\<lparr>client := (client w)\<lparr>crumb := body\<rparr>\<rparr>))"

text \<open>
  \<open>Get\<close> runs \<open>getCrumb\<close> and then issues the data request, to which \<open>get\<close> attaches
  the crumb it finds in the client. The second component is that crumb (empty when none
  was attached).
\<close>

definition Get :: "Network \<Rightarrow> World \<Rightarrow> World \<times> string" where
  "Get net w =
    (let w = getCrumb net w
     in (w\<lparr>requests := requests w @ [DataEndpoint]\<rparr>, crumb (client w)))"

text \<open>\<open>n\<close> callers, each returning from \<open>Get\<close> before the next one enters.\<close>

fun Get_seq :: "Network \<Rightarrow> nat \<Rightarrow> World \<Rightarrow> World \<times> string list" where
  "Get_seq net 0 w = (w, [])"
| "Get_seq net (Suc n) w =
     (case Get net w of (w', c) \<Rightarrow>
      case Get_seq net n w' of (w'', cs) \<Rightarrow> (w'', c # cs))"

subsection \<open>Concurrent callers\<close>

text \<open>
  Callers that overlap are modelled by interleaving: each caller is at a point of
  \<open>Get\<close>, and a step of one caller is one test, one exchange with the network or one
  assignment of the source. A reply is held by the caller between the exchange and the
  assignment that stores it.
\<close>

datatype pc =
    AtGetCrumb
  | AtGetCookie
  | AtCookieRequest
  | AtCookieStore "Cookie list"
  | AtCrumbRequest
  | AtCrumbStore string
  | AtDataRequest
  | Returned string

fun step :: "Network \<Rightarrow> pc \<Rightarrow> World \<Rightarrow> pc \<times> World" where
  "step net AtGetCrumb w =
     (if crumb (client w) \<noteq> [] then (AtDataRequest, w) else (AtGetCookie, w))"
| "step net AtGetCookie w =
     (if length (cookies (client w)) > 0 then (AtCrumbRequest, w) else (AtCookieRequest, w))"
| "step net AtCookieRequest w =
     (let n = length (requests w);
          w = w\<lparr>requests := requests w @ [CookieEndpoint]\<rparr>
      in case cookie_reply net n of
           None \<Rightarrow> (AtCrumbRequest, w)
         | Some cs \<Rightarrow> (AtCookieStore cs, w))"
| "step net (AtCookieStore cs) w =
     (AtCrumbRequest, w\<lparr>client := (client w)\<lparr>cookies := cs\<rparr>\<rparr>)"
| "step net AtCrumbRequest w =
     (let n = length (requests w);
          w = w\<lparr>requests := requests w @ [CrumbEndpoint]\<rparr>
      in case crumb_reply net n of
           None \<Rightarrow> (AtDataRequest, w)
         | Some body \<Rightarrow> (AtCrumbStore body, w))"
| "step net (AtCrumbStore body) w =
     (AtDataRequest, w\<lparr>client := (client w)\<lparr>crumb := body\<rparr>\<rparr>)"
| "step net AtDataRequest w =
     (Returned (crumb (client w)), w\<lparr>requests := requests w @ [DataEndpoint]\<rparr>)"
| "step net (Returned c) w = (Returned c, w)"

text \<open>
  A schedule names the caller that takes the next step. A caller that has returned, or a
  number that names no caller, leaves the configuration unchanged.
\<close>

fun run :: "Network \<Rightarrow> nat list \<Rightarrow> pc list \<times> World \<Rightarrow> pc list \<times> World" where
  "run net [] cfg = cfg"
| "run net (i # sched) (pcs, w) =
     (if i < length pcs
      then (case step net (pcs ! i) w of (p, w') \<Rightarrow> run net sched (pcs[i := p], w'))
      else run net sched (pcs, w))"

section \<open>Example inputs\<close>

text \<open>Concrete responses on which the theorems below are instantiated.\<close>

definition example_value :: "float64 \<Rightarrow> string \<Rightarrow> PriceValue" where
  "example_value r s = \<lparr> Raw = r, Fmt = s, LongFmt = [] \<rparr>"

definition zero_DivSummaryDetail :: DivSummaryDetail where
  "zero_DivSummaryDetail = \<lparr>
     dsd_DividendRate = None, dsd_DividendYield = None, dsd_ExDividendDate = None,
     dsd_DividendDate = None, dsd_PayoutRatio = None, dsd_FiveYearAvgDividendYield = None \<rparr>"

text \<open>A dividend response whose only populated field is a dividend rate of exactly 0.\<close>

definition example_zero_rate :: DividendResponse where
  "example_zero_rate = \<lparr>
     div_Result = [\<lparr>
       dr_SummaryDetail =
         Some (zero_DivSummaryDetail\<lparr> dsd_DividendRate := Some (example_value 0 ''0.00'') \<rparr>),
       dr_DefaultKeyStatistics = None,
       dr_CashflowStatementHistory = None \<rparr>],
     div_Error = JNull \<rparr>"

text \<open>
  A financial response with one result: the balance sheet module is present with an empty
  statement list, and \<open>financialData\<close> carries a book value per share.
\<close>

definition example_no_statements :: YahooFinancialResponse where
  "example_no_statements = \<lparr>
     fin_Result = [\<lparr>
       DefaultKeyStatistics = None,
       FinancialData =
         Some (zero_FinancialRatios\<lparr> fr_BookValuePerShare := Some (example_value 4 ''4.00'') \<rparr>),
       SummaryDetail = None,
       IncomeStatementHistory = None,
       BalanceSheetHistory = Some [],
       CashflowStatementHistory = None \<rparr>],
     fin_Error = JNull \<rparr>"

text \<open>
  A chart with the given timestamps and volumes; the other four slices hold two prices
  each.
\<close>

definition example_bar :: "float64 \<Rightarrow> float64 \<Rightarrow> float64 \<Rightarrow> float64 \<Rightarrow> int \<Rightarrow> PriceData" where
  "example_bar op hi lo cl vol =
     \<lparr> Open = Some op, High = Some hi, Low = Some lo, Close = Some cl, Volume = Some vol \<rparr>"

definition example_quote :: "int option list \<Rightarrow> Quote" where
  "example_quote vols = \<lparr>
     q_Open = [Some 150, Some 151], q_High = [Some 155, Some 156],
     q_Low = [Some 149, Some 150], q_Close = [Some 154, Some 155], q_Volume = vols \<rparr>"

definition example_result :: "int list \<Rightarrow> int option list \<Rightarrow> ChartResult" where
  "example_result ts vols = \<lparr> Timestamp = ts, Indicators_Quote = [example_quote vols] \<rparr>"

definition example_chart :: "int list \<Rightarrow> int option list \<Rightarrow> YahooHistoryResponse" where
  "example_chart ts vols = \<lparr> Chart_Result = [example_result ts vols], Chart_Error = JNull \<rparr>"

text \<open>
  A network on which every exchange succeeds: the cookie endpoint sets one cookie, and
  the crumb endpoint answers the request at position \<open>n\<close> of the log with a crumb that
  names \<open>n\<close>.
\<close>

definition example_network :: Network where
  "example_network = \<lparr>
     cookie_reply = (\<lambda>n. Some [''A3=d''] ),
     crumb_reply = (\<lambda>n. Some (''crumb-'' @ digits n)) \<rparr>"

text \<open>
  Two callers on first use: both test the crumb, then both test the cookies, before
  either has stored anything; the first caller then runs to its return, and the second
  follows.
\<close>

definition example_schedule :: "nat list" where
  "example_schedule = [0, 1, 0, 1, 0, 0, 0, 0, 0, 1, 1, 1, 1, 1]"

section \<open>Calendar arithmetic and key lengths\<close>

lemma digits_length: "length (digits n) = (if n < 10 then 1 else 1 + length (digits (n div 10)))"
  by (subst digits.simps) simp

lemma digits_length_2: "n < 100 \<Longrightarrow> length (digits n) \<le> 2"
proof -
  assume "n < 100"
  then have "n div 10 < 10" by arith
  then show ?thesis
    by (simp add: digits_length [of n] digits_length [of "n div 10"])
qed

lemma digits_length_4: "n < 10000 \<Longrightarrow> length (digits n) \<le> 4"
proof -
  assume "n < 10000"
  then have "n div 10 div 10 div 10 < 10" by arith
  then show ?thesis
    by (simp add: digits_length [of n] digits_length [of "n div 10"]
      digits_length [of "n div 10 div 10"] digits_length [of "n div 10 div 10 div 10"])
qed

lemma appendInt_length:
  "0 \<le> x \<Longrightarrow> length (digits (nat x)) \<le> w \<Longrightarrow> length (appendInt x w) = w"
  by (simp add: appendInt_def Let_def)

lemma appendInt_2: "n < 100 \<Longrightarrow> length (appendInt (int n) 2) = 2"
  by (rule appendInt_length) (simp_all add: digits_length_2)

lemma appendInt_4: "0 \<le> y \<Longrightarrow> y \<le> 9999 \<Longrightarrow> length (appendInt y 4) = 4"
  by (rule appendInt_length) (simp_all add: digits_length_4)

lemma cut_cycle:
  fixes x c :: nat
  assumes c: "0 < c" and x: "x \<le> 4 * c"
  shows "x - c * (x div c - x div c div 4) \<le> c"
proof -
  let ?q = "x div c"
  have lo: "c * ?q \<le> x" by simp
  have hi: "x < c * ?q + c" using c by (metis dividend_less_times_div add.commute)
  have "?q \<le> 4 * c div c" using x by (rule div_le_mono)
  then have "?q \<le> 4" using c by simp
  then consider "?q = 4" | "?q \<le> 3" by arith
  then show ?thesis
  proof cases
    case 1
    then have "x - c * (?q - ?q div 4) = x - c * 3" by simp
    also have "\<dots> \<le> c" using x by simp
    finally show ?thesis .
  next
    case 2
    then have "?q div 4 = 0" by simp
    then have "x - c * (?q - ?q div 4) = x - c * ?q" by simp
    also have "\<dots> \<le> c" using hi by simp
    finally show ?thesis .
  qed
qed

lemma cut_4years: "(x::nat) - 1461 * (x div 1461) \<le> 4 * 365"
proof -
  have "x mod 1461 < 1461" by simp
  then have "x mod 1461 \<le> 4 * 365" by linarith
  then show ?thesis by (simp only: minus_mult_div_eq_mod)
qed

lemma absYearDay_yday: "snd (absYearDay a) \<le> 365"
  unfolding absYearDay_def Let_def snd_conv
  by (rule cut_cycle) (simp, rule cut_4years)

lemma daysBefore_near:
  assumes "k \<le> 12"
  shows "31 * k \<le> daysBefore ! k + 7"
proof -
  from assms have "k = 0 \<or> k = 1 \<or> k = 2 \<or> k = 3 \<or> k = 4 \<or> k = 5 \<or> k = 6 \<or> k = 7
    \<or> k = 8 \<or> k = 9 \<or> k = 10 \<or> k = 11 \<or> k = 12" by presburger
  then show ?thesis
    by (elim disjE) (simp_all add: daysBefore_def)
qed

lemma month_day_bounds:
  assumes "day \<le> 365"
  shows "(case (if day \<ge> daysBefore ! (day div 31 + 1) then (day div 31 + 1, daysBefore ! (day div 31 + 1))
                else (day div 31, daysBefore ! (day div 31))) of (month, begin) \<Rightarrow>
            month + 1 < 100 \<and> day - begin + 1 < 100)"
proof -
  let ?m = "day div 31"
  have "?m \<le> 365 div 31" using assms by (rule div_le_mono)
  then have m: "?m \<le> 11" by simp
  have hi: "day < 31 * ?m + 31" by (metis dividend_less_times_div add.commute zero_less_numeral)
  from m have a: "31 * ?m \<le> daysBefore ! ?m + 7" by (simp add: daysBefore_near)
  from m have "31 * Suc ?m \<le> daysBefore ! Suc ?m + 7" by (intro daysBefore_near) simp
  then have b: "31 * ?m + 31 \<le> daysBefore ! Suc ?m + 7" by simp
  have c1: "day - daysBefore ! Suc ?m < 99" using b hi by linarith
  have c2: "day - daysBefore ! ?m < 99" using a hi by linarith
  show ?thesis using m by (simp add: c1 c2)
qed

lemma absDate_bounds:
  "(case absDate a of (year, month, day) \<Rightarrow> month < 100 \<and> day < 100)"
proof -
  obtain year yday where yd: "absYearDay a = (year, yday)" by (cases "absYearDay a")
  have "yday \<le> 365" using absYearDay_yday [of a] yd by simp
  then have *: "yday - 1 \<le> 365" by simp
  show ?thesis
    using month_day_bounds [OF \<open>yday \<le> 365\<close>] month_day_bounds [OF *]
    by (simp add: absDate_def yd Let_def split: prod.splits if_splits)
qed

lemma absClock_eq:
  "absClock a = (a mod 86400 div 3600, a mod 86400 mod 3600 div 60, a mod 86400 mod 3600 mod 60)"
  unfolding absClock_def Let_def by (simp only: minus_div_mult_eq_mod)

lemma absClock_bounds:
  "(case absClock a of (hour, mn, s) \<Rightarrow> hour < 100 \<and> mn < 100 \<and> s < 100)"
proof -
  have "a mod 86400 < 86400" by simp
  then have h: "a mod 86400 div 3600 < 100" by linarith
  have "a mod 86400 mod 3600 < 3600" by simp
  then have m: "a mod 86400 mod 3600 div 60 < 100" by linarith
  have "a mod 86400 mod 3600 mod 60 < 60" by simp
  then have s: "a mod 86400 mod 3600 mod 60 < 100" by linarith
  show ?thesis by (simp only: absClock_eq prod.case h m s simp_thms)
qed

lemma absDate_year: "fst (absDate a) = fst (absYearDay a)"
  by (simp add: absDate_def Let_def split: prod.splits)

lemma Format_date_length:
  assumes "0 \<le> Year loc t" and "Year loc t \<le> 9999"
  shows "length (Format_date loc t) = 10"
proof -
  obtain y m d where ymd: "absDate (abs_time loc t) = (y, m, d)"
    by (cases "absDate (abs_time loc t)")
  have "y = Year loc t" using absDate_year [of "abs_time loc t"] ymd by (simp add: Year_def)
  then have y: "length (appendInt y 4) = 4" using assms by (simp add: appendInt_4)
  have "m < 100 \<and> d < 100" using absDate_bounds [of "abs_time loc t"] ymd by simp
  then have md: "length (appendInt (int m) 2) = 2" "length (appendInt (int d) 2) = 2"
    by (simp_all add: appendInt_2)
  show ?thesis by (simp add: Format_date_def ymd y md)
qed

lemma Format_datetime_length:
  assumes "0 \<le> Year loc t" and "Year loc t \<le> 9999"
  shows "length (Format_datetime loc t) = 19"
proof -
  obtain y m d where ymd: "absDate (abs_time loc t) = (y, m, d)"
    by (cases "absDate (abs_time loc t)")
  obtain hh mm ss where hms: "absClock (abs_time loc t) = (hh, mm, ss)"
    by (cases "absClock (abs_time loc t)")
  have "y = Year loc t" using absDate_year [of "abs_time loc t"] ymd by (simp add: Year_def)
  then have y: "length (appendInt y 4) = 4" using assms by (simp add: appendInt_4)
  have "m < 100 \<and> d < 100" using absDate_bounds [of "abs_time loc t"] ymd by simp
  then have md: "length (appendInt (int m) 2) = 2" "length (appendInt (int d) 2) = 2"
    by (simp_all add: appendInt_2)
  have "hh < 100 \<and> mm < 100 \<and> ss < 100" using absClock_bounds [of "abs_time loc t"] hms by simp
  then have c: "length (appendInt (int hh) 2) = 2" "length (appendInt (int mm) 2) = 2"
     "length (appendInt (int ss) 2) = 2"
    by (simp_all add: appendInt_2)
  show ?thesis by (simp add: Format_datetime_def ymd hms y md c)
qed

section \<open>The loop of \<open>transformHistoricalData\<close>\<close>

lemma index_in_range: "i < length xs \<Longrightarrow> index xs i = Inr (xs ! i)"
  by (simp add: index_def)

lemma loop_body_Inr:
  "loop_body loc interval result d i t =
     Inr (case Indicators_Quote result of
            [] \<Rightarrow> d
          | quote # _ \<Rightarrow>
              if within_bounds quote i
              then d(key_of loc interval t \<mapsto>
                     \<lparr> Open = q_Open quote ! i, High = q_High quote ! i, Low = q_Low quote ! i,
                       Close = q_Close quote ! i, Volume = q_Volume quote ! i \<rparr>)
              else d)"
  by (simp add: loop_body_def Let_def within_bounds_def index_in_range bind_panic_def
      split: list.splits)

lemma range_loop_dom:
  "\<exists>d'. range_loop (loop_body loc interval result) i ts d = Inr d'
     \<and> dom d' = dom d \<union> {key_of loc interval (ts ! j) | j.
          j < length ts \<and> (\<exists>quote quotes. Indicators_Quote result = quote # quotes
                              \<and> within_bounds quote (i + j))}"
proof (induction ts arbitrary: i d)
  case Nil
  show ?case by simp
next
  case (Cons t ts)
  let ?P = "\<lambda>n. \<exists>quote quotes. Indicators_Quote result = quote # quotes \<and> within_bounds quote n"
  obtain d1 where d1: "loop_body loc interval result d i t = Inr d1"
    and dom1: "dom d1 = dom d \<union> (if ?P i then {key_of loc interval t} else {})"
    by (auto simp add: loop_body_Inr split: list.splits)
  from Cons.IH [of "i + 1" d1] obtain d' where
    r: "range_loop (loop_body loc interval result) (i + 1) ts d1 = Inr d'"
    and dom': "dom d' = dom d1 \<union> {key_of loc interval (ts ! j) | j. j < length ts \<and> ?P (i + 1 + j)}"
    by blast
  have split: "{key_of loc interval ((t # ts) ! j) | j. j < length (t # ts) \<and> ?P (i + j)}
      = (if ?P i then {key_of loc interval t} else {})
        \<union> {key_of loc interval (ts ! j) | j. j < length ts \<and> ?P (i + 1 + j)}"
    (is "?L = ?R")
  proof (rule set_eqI)
    fix k
    show "k \<in> ?L \<longleftrightarrow> k \<in> ?R"
    proof
      assume "k \<in> ?L"
      then obtain j where j: "j < length (t # ts)" "?P (i + j)" "k = key_of loc interval ((t # ts) ! j)"
        by blast
      show "k \<in> ?R"
      proof (cases j)
        case 0
        with j show ?thesis by simp
      next
        case (Suc j')
        with j have "j' < length ts" "?P (i + 1 + j')" "k = key_of loc interval (ts ! j')"
          by simp_all
        then show ?thesis by blast
      qed
    next
      assume "k \<in> ?R"
      then consider "?P i" "k = key_of loc interval t"
        | j where "j < length ts" "?P (i + 1 + j)" "k = key_of loc interval (ts ! j)"
        by (auto split: if_splits)
      then show "k \<in> ?L"
      proof cases
        case 1
        then have "0 < length (t # ts) \<and> ?P (i + 0) \<and> k = key_of loc interval ((t # ts) ! 0)"
          by simp
        then show ?thesis by blast
      next
        case 2
        then have "Suc j < length (t # ts) \<and> ?P (i + Suc j) \<and> k = key_of loc interval ((t # ts) ! Suc j)"
          by simp
        then show ?thesis by blast
      qed
    qed
  qed
  show ?case
    using d1 r dom1 dom' split by (simp add: Un_assoc)
qed

section \<open>Verified properties: module merge\<close>

text \<open>
  C2. \<open>extractFinancialRatios\<close> takes the trailing P/E and the price-to-book ratio from
  \<open>summaryDetail\<close> when that module carries them, and from \<open>defaultKeyStatistics\<close> only
  when the field is still absent after the \<open>summaryDetail\<close> pass. No other field of the
  result depends on \<open>defaultKeyStatistics\<close>. When both modules carry a trailing P/E, the
  one of \<open>summaryDetail\<close> is returned.
\<close>

theorem extractFinancialRatios_precedence:
  "fr_PriceToEarningsRatio (extractFinancialRatios result) =
     (case (case SummaryDetail result of None \<Rightarrow> None | Some sd \<Rightarrow> sd_TrailingPE sd) of
        Some v \<Rightarrow> Some v
      | None \<Rightarrow> (case DefaultKeyStatistics result of
                   None \<Rightarrow> None
                 | Some dks \<Rightarrow> fs_TrailingPE dks))
   \<and> fr_PriceToBookRatio (extractFinancialRatios result) =
     (case (case SummaryDetail result of None \<Rightarrow> None | Some sd \<Rightarrow> sd_PriceToBook sd) of
        Some v \<Rightarrow> Some v
      | None \<Rightarrow> (case DefaultKeyStatistics result of
                   None \<Rightarrow> None
                 | Some dks \<Rightarrow> fs_PriceToBook dks))
   \<and> extractFinancialRatios result =
     (extractFinancialRatios (result\<lparr>DefaultKeyStatistics := None\<rparr>))\<lparr>
        fr_PriceToEarningsRatio := fr_PriceToEarningsRatio (extractFinancialRatios result),
        fr_PriceToBookRatio := fr_PriceToBookRatio (extractFinancialRatios result)\<rparr>
   \<and> fr_PriceToEarningsRatio (extractFinancialRatios
        (result\<lparr>SummaryDetail := Some (sd\<lparr>sd_TrailingPE := Some v\<rparr>),
                 DefaultKeyStatistics := Some (dks\<lparr>fs_TrailingPE := Some w\<rparr>)\<rparr>)) = Some v"
  by (auto simp add: extractFinancialRatios_def zero_FinancialRatios_def Let_def
      split: option.splits)

text \<open>
  C3. \<open>extractFinancialSummary\<close> starts from the \<open>defaultKeyStatistics\<close> struct as a whole
  (the zero value when the module is absent). When \<open>summaryDetail\<close> is present, each of
  market cap, forward P/E, trailing P/E, price-to-sales, price-to-book and beta keeps the
  value it has and takes the one of \<open>summaryDetail\<close> only where it is absent; every other
  field is the one of \<open>defaultKeyStatistics\<close>.
\<close>

theorem extractFinancialSummary_fill:
  "(let base = (case DefaultKeyStatistics result of
                  None \<Rightarrow> zero_FinancialSummary
                | Some dks \<Rightarrow> dks);
        fill = (\<lambda>cur new. case cur of Some v \<Rightarrow> Some v | None \<Rightarrow> new)
    in extractFinancialSummary result =
        (case SummaryDetail result of
           None \<Rightarrow> base
         | Some sd \<Rightarrow> base\<lparr>
             fs_MarketCap := fill (fs_MarketCap base) (sd_MarketCap sd),
             fs_ForwardPE := fill (fs_ForwardPE base) (sd_ForwardPE sd),
             fs_TrailingPE := fill (fs_TrailingPE base) (sd_TrailingPE sd),
             fs_PriceToSalesTrailing12Months :=
               fill (fs_PriceToSalesTrailing12Months base) (sd_PriceToSalesTrailing12Months sd),
             fs_PriceToBook := fill (fs_PriceToBook base) (sd_PriceToBook sd),
             fs_Beta := fill (fs_Beta base) (sd_Beta sd) \<rparr>))"
  by (auto simp add: extractFinancialSummary_def Let_def split: option.splits)

section \<open>Verified properties: empty results and absent fields\<close>

text \<open>
  C8, as the claim states it, fails: with a non-empty result array and an empty list of
  balance sheet statements the operation succeeds, but the record is not empty when the
  response carries \<open>financialData.bookValuePerShare\<close>.
\<close>

theorem FetchBalanceSheet_not_all_absent:
  "fin_Result example_no_statements \<noteq> []
   \<and> BalanceSheetHistory (hd (fin_Result example_no_statements)) = Some []
   \<and> snd (FetchBalanceSheet ''AAPL'' (Decoded example_no_statements)) = None
   \<and> bs_BookValuePerShare (fst (FetchBalanceSheet ''AAPL'' (Decoded example_no_statements)))
       = Some (example_value 4 ''4.00'')
   \<and> fst (FetchBalanceSheet ''AAPL'' (Decoded example_no_statements)) \<noteq> zero_BalanceSheet"
  by (simp add: FetchBalanceSheet_def decode_failure_def example_no_statements_def
      extractBalanceSheet_def zero_BalanceSheet_def zero_FinancialRatios_def Let_def)

text \<open>
  C8, amended. With a non-empty result array whose first entry has no balance sheet
  module, or has one with an empty statement list, \<open>FetchBalanceSheet\<close> returns no error
  and a record whose fields are all absent except the book value per share, which is the
  one of \<open>financialData\<close> when that module is present; so the whole record is empty when
  \<open>financialData\<close> is absent. An empty result array is an error.
\<close>

theorem FetchBalanceSheet_without_statements:
  "FetchBalanceSheet symbol
     (Decoded (resp\<lparr>fin_Result := (result\<lparr>BalanceSheetHistory := None\<rparr>) # others\<rparr>))
     = (zero_BalanceSheet\<lparr>bs_BookValuePerShare :=
          (case FinancialData result of None \<Rightarrow> None | Some fd \<Rightarrow> fr_BookValuePerShare fd)\<rparr>,
        None)
   \<and> FetchBalanceSheet symbol
     (Decoded (resp\<lparr>fin_Result := (result\<lparr>BalanceSheetHistory := Some []\<rparr>) # others\<rparr>))
     = (zero_BalanceSheet\<lparr>bs_BookValuePerShare :=
          (case FinancialData result of None \<Rightarrow> None | Some fd \<Rightarrow> fr_BookValuePerShare fd)\<rparr>,
        None)
   \<and> FetchBalanceSheet symbol
     (Decoded (resp\<lparr>fin_Result :=
        (result\<lparr>BalanceSheetHistory := Some [], FinancialData := None\<rparr>) # others\<rparr>))
     = (zero_BalanceSheet, None)
   \<and> FetchBalanceSheet symbol (Decoded (resp\<lparr>fin_Result := []\<rparr>))
     = (zero_BalanceSheet, Some (''no balance sheet found for symbol: '' @ symbol))"
  by (simp add: FetchBalanceSheet_def decode_failure_def extractBalanceSheet_def
      zero_BalanceSheet_def Let_def split: option.splits)

text \<open>
  C9. When the dividend information is fetched without error, \<open>FetchDividendRate\<close>
  returns the error "dividend rate not available for symbol" exactly when the dividend
  rate is absent, and otherwise the raw number without error, also when it is 0.
\<close>

theorem FetchDividendRate_absent_or_raw:
  assumes "FetchDividendInfo symbol f = (info, None)"
  shows "FetchDividendRate symbol f =
           (case DividendRate info of
              None \<Rightarrow> (0, Some (''dividend rate not available for symbol: '' @ symbol))
            | Some r \<Rightarrow> (Raw r, None))"
  using assms by (simp add: FetchDividendRate_def)

lemma example_zero_rate_info:
  "FetchDividendInfo ''KO'' (Decoded example_zero_rate) =
     (zero_DividendInfo\<lparr>DividendRate := Some (example_value 0 ''0.00'')\<rparr>, None)"
  by (simp add: FetchDividendInfo_def decode_failure_def example_zero_rate_def
      extractDividendInfo_def zero_DividendInfo_def zero_DivSummaryDetail_def Let_def)

theorem FetchDividendRate_absent_or_raw_witness:
  "FetchDividendInfo ''KO'' (Decoded example_zero_rate) =
     (zero_DividendInfo\<lparr>DividendRate := Some (example_value 0 ''0.00'')\<rparr>, None)
   \<and> FetchDividendRate ''KO'' (Decoded example_zero_rate) = (0, None)"
  using FetchDividendRate_absent_or_raw [OF example_zero_rate_info] example_zero_rate_info
  by (simp add: zero_DividendInfo_def example_value_def)

text \<open>
  C10. When the dividend information is fetched without error, \<open>IsDividendPaying\<close>
  returns true exactly when the dividend rate is present with a raw value above 0. A rate
  that is present and not positive gives false, without error, while \<open>FetchDividendRate\<close>
  returns that raw value without error for the same response.
\<close>

theorem IsDividendPaying_positive_rate:
  assumes "FetchDividendInfo symbol f = (info, None)"
  shows "IsDividendPaying symbol f = ((\<exists>r. DividendRate info = Some r \<and> Raw r > 0), None)
         \<and> (\<forall>r. DividendRate info = Some r \<and> Raw r \<le> 0 \<longrightarrow>
               IsDividendPaying symbol f = (False, None)
               \<and> FetchDividendRate symbol f = (Raw r, None))"
  using assms
  by (auto simp add: IsDividendPaying_def FetchDividendRate_def split: option.splits)

theorem IsDividendPaying_positive_rate_witness:
  "FetchDividendInfo ''KO'' (Decoded example_zero_rate) =
     (zero_DividendInfo\<lparr>DividendRate := Some (example_value 0 ''0.00'')\<rparr>, None)
   \<and> Raw (example_value 0 ''0.00'') \<le> 0
   \<and> IsDividendPaying ''KO'' (Decoded example_zero_rate) = (False, None)
   \<and> FetchDividendRate ''KO'' (Decoded example_zero_rate) = (0, None)"
  using IsDividendPaying_positive_rate [OF example_zero_rate_info] example_zero_rate_info
  by (simp add: zero_DividendInfo_def example_value_def)

section \<open>Evaluating the examples\<close>

lemma Format_date_eval:
  "absDate (abs_time loc sec) = (y, m, d) \<Longrightarrow>
   Format_date loc sec = appendInt y 4 @ ''-'' @ appendInt (int m) 2 @ ''-'' @ appendInt (int d) 2"
  by (simp add: Format_date_def)

lemma Format_datetime_eval:
  "absDate (abs_time loc sec) = (y, m, d) \<Longrightarrow> absClock (abs_time loc sec) = (hh, mm, ss) \<Longrightarrow>
   Format_datetime loc sec =
     appendInt y 4 @ ''-'' @ appendInt (int m) 2 @ ''-'' @ appendInt (int d) 2
     @ '' '' @ appendInt (int hh) 2 @ '':'' @ appendInt (int mm) 2 @ '':'' @ appendInt (int ss) 2"
  by (simp add: Format_datetime_def)

lemma absDate_examples:
  "absDate (abs_time UTC 1704067200) = (2024, 1, 1)"
  "absDate (abs_time UTC 1704153600) = (2024, 1, 2)"
  "absDate (abs_time UTC 253418025600) = (10000, 7, 1)"
  by (simp_all add: abs_time_def unixToAbsolute_def UTC_def absDate_def absYearDay_def
      absoluteZeroYear_def isLeap_def daysBefore_def Let_def cong: let_weak_cong)

lemma absClock_examples:
  "absClock (abs_time UTC 1704067200) = (0, 0, 0)"
  "absClock (abs_time UTC 1704153600) = (0, 0, 0)"
  by (simp_all add: abs_time_def unixToAbsolute_def UTC_def absClock_eq)

lemma appendInt_examples:
  "appendInt 2024 4 = ''2024''" "appendInt 10000 4 = ''10000''" "appendInt 0 2 = ''00''"
  "appendInt 1 2 = ''01''" "appendInt 2 2 = ''02''" "appendInt 7 2 = ''07''"
  by (simp_all add: appendInt_def digits.simps)

lemma Format_date_examples:
  "Format_date UTC 1704067200 = ''2024-01-01''"
  "Format_date UTC 1704153600 = ''2024-01-02''"
  "Format_date UTC 253418025600 = ''10000-07-01''"
  by (simp_all add: Format_date_eval [OF absDate_examples(1)]
      Format_date_eval [OF absDate_examples(2)] Format_date_eval [OF absDate_examples(3)]
      appendInt_examples)

lemma Format_datetime_examples:
  "Format_datetime UTC 1704067200 = ''2024-01-01 00:00:00''"
  "Format_datetime UTC 1704153600 = ''2024-01-02 00:00:00''"
  by (simp_all add: Format_datetime_eval [OF absDate_examples(1) absClock_examples(1)]
      Format_datetime_eval [OF absDate_examples(2) absClock_examples(2)] appendInt_examples)

lemma Year_examples:
  "Year UTC 1704067200 = 2024" "Year UTC 1704153600 = 2024" "Year UTC 253418025600 = 10000"
  using absDate_year [of "abs_time UTC 1704067200"] absDate_year [of "abs_time UTC 1704153600"]
    absDate_year [of "abs_time UTC 253418025600"]
  by (simp_all add: Year_def absDate_examples)

lemmas transform_eval =
  transformHistoricalData_def example_chart_def example_result_def example_quote_def
  loop_body_Inr within_bounds_def key_of_def HasSuffix_def example_bar_def

lemma example_daily:
  "transformHistoricalData UTC
     (example_chart [1704067200, 1704153600] [Some 1000000, Some 1100000]) ''1d''
   = Inr [''2024-01-01'' \<mapsto> example_bar 150 155 149 154 1000000,
          ''2024-01-02'' \<mapsto> example_bar 151 156 150 155 1100000]"
  by (simp add: transform_eval Format_date_examples)

lemma example_minutes:
  "transformHistoricalData UTC
     (example_chart [1704067200, 1704153600] [Some 1000000, Some 1100000]) ''5m''
   = Inr [''2024-01-01 00:00:00'' \<mapsto> example_bar 150 155 149 154 1000000,
          ''2024-01-02 00:00:00'' \<mapsto> example_bar 151 156 150 155 1100000]"
  by (simp add: transform_eval Format_datetime_examples)


section \<open>Verified properties: time series transform\<close>


lemma transform_dom:
  assumes "Chart_Result data = result # others"
    and "transformHistoricalData loc data interval = Inr d"
  shows "dom d = {key_of loc interval (Timestamp result ! j) | j.
          j < length (Timestamp result)
          \<and> (\<exists>quote quotes. Indicators_Quote result = quote # quotes \<and> within_bounds quote j)}"
  using range_loop_dom [of loc interval result 0 "Timestamp result" Map.empty] assms
  by (auto simp add: transformHistoricalData_def)

text \<open>
  C4, as the claim states it, fails: the year is written with at least four digits, not
  exactly four. A timestamp in the year 10000 gives a date key of 11 characters.
\<close>

theorem transformHistoricalData_key_year_10000:
  "transformHistoricalData UTC (example_chart [253418025600] [Some 1000000]) ''1d''
     = Inr [''10000-07-01'' \<mapsto> example_bar 150 155 149 154 1000000]
   \<and> HasSuffix ''1d'' ''d''
   \<and> length ''10000-07-01'' = 11"
  by (simp add: transform_eval Format_date_examples)

text \<open>
  C4, amended. Every key of the mapping is the timestamp of a position of the first
  result that lies within all five slices, formatted as a calendar date when the
  granularity string ends with "d", "wk" or "mo" and as a full date-time otherwise, and
  the key of every such position is in the mapping. A key has 10 characters (date) or 19
  characters (date-time) when the calendar year of its timestamp, in the zone of the
  process, lies between 0 and 9999.
\<close>

theorem transformHistoricalData_key_format:
  assumes "transformHistoricalData loc data interval = Inr d"
  shows "(\<forall>k \<in> dom d. \<exists>result others quote quotes j.
            Chart_Result data = result # others
            \<and> Indicators_Quote result = quote # quotes
            \<and> j < length (Timestamp result) \<and> within_bounds quote j
            \<and> k = (if HasSuffix interval ''d'' \<or> HasSuffix interval ''wk''
                       \<or> HasSuffix interval ''mo''
                    then Format_date loc (Timestamp result ! j)
                    else Format_datetime loc (Timestamp result ! j))
            \<and> (0 \<le> Year loc (Timestamp result ! j) \<and> Year loc (Timestamp result ! j) \<le> 9999
                 \<longrightarrow> length k = (if HasSuffix interval ''d'' \<or> HasSuffix interval ''wk''
                                     \<or> HasSuffix interval ''mo''
                                  then 10 else 19)))
         \<and> (\<forall>result others quote quotes j.
              Chart_Result data = result # others
              \<and> Indicators_Quote result = quote # quotes
              \<and> j < length (Timestamp result) \<and> within_bounds quote j
              \<longrightarrow> (if HasSuffix interval ''d'' \<or> HasSuffix interval ''wk''
                       \<or> HasSuffix interval ''mo''
                    then Format_date loc (Timestamp result ! j)
                    else Format_datetime loc (Timestamp result ! j)) \<in> dom d)"
proof (intro conjI ballI allI impI)
  fix k
  assume kd: "k \<in> dom d"
  show "\<exists>result others quote quotes j.
            Chart_Result data = result # others
            \<and> Indicators_Quote result = quote # quotes
            \<and> j < length (Timestamp result) \<and> within_bounds quote j
            \<and> k = (if HasSuffix interval ''d'' \<or> HasSuffix interval ''wk''
                       \<or> HasSuffix interval ''mo''
                    then Format_date loc (Timestamp result ! j)
                    else Format_datetime loc (Timestamp result ! j))
            \<and> (0 \<le> Year loc (Timestamp result ! j) \<and> Year loc (Timestamp result ! j) \<le> 9999
                 \<longrightarrow> length k = (if HasSuffix interval ''d'' \<or> HasSuffix interval ''wk''
                                     \<or> HasSuffix interval ''mo''
                                  then 10 else 19))"
  proof (cases "Chart_Result data")
    case Nil
    with assms kd show ?thesis by (auto simp add: transformHistoricalData_def)
  next
    case (Cons result others)
    from transform_dom [OF Cons assms] kd
    obtain j quote quotes where j: "j < length (Timestamp result)"
      and q: "Indicators_Quote result = quote # quotes" "within_bounds quote j"
      and k: "k = key_of loc interval (Timestamp result ! j)"
      by blast
    let ?t = "Timestamp result ! j"
    have fmt: "k = (if HasSuffix interval ''d'' \<or> HasSuffix interval ''wk''
                       \<or> HasSuffix interval ''mo''
                    then Format_date loc ?t else Format_datetime loc ?t)"
      using k by (simp add: key_of_def)
    have len: "0 \<le> Year loc ?t \<and> Year loc ?t \<le> 9999
                 \<longrightarrow> length k = (if HasSuffix interval ''d'' \<or> HasSuffix interval ''wk''
                                     \<or> HasSuffix interval ''mo''
                                  then 10 else 19)"
      using fmt Format_date_length [of loc ?t] Format_datetime_length [of loc ?t]
      by (simp split: if_splits)
    from Cons q j fmt len show ?thesis by blast
  qed
next
  fix result others quote quotes j
  assume a: "Chart_Result data = result # others
              \<and> Indicators_Quote result = quote # quotes
              \<and> j < length (Timestamp result) \<and> within_bounds quote j"
  then have "key_of loc interval (Timestamp result ! j) \<in> dom d"
    using transform_dom [of data result others loc interval d] assms by blast
  then show "(if HasSuffix interval ''d'' \<or> HasSuffix interval ''wk''
                       \<or> HasSuffix interval ''mo''
                    then Format_date loc (Timestamp result ! j)
                    else Format_datetime loc (Timestamp result ! j)) \<in> dom d"
    by (simp add: key_of_def)
qed

theorem transformHistoricalData_key_format_witness:
  "transformHistoricalData UTC
     (example_chart [1704067200, 1704153600] [Some 1000000, Some 1100000]) ''1d''
     = Inr [''2024-01-01'' \<mapsto> example_bar 150 155 149 154 1000000,
            ''2024-01-02'' \<mapsto> example_bar 151 156 150 155 1100000]
   \<and> Year UTC 1704067200 = 2024 \<and> Year UTC 1704153600 = 2024
   \<and> Format_date UTC 1704067200 = ''2024-01-01''
   \<and> length ''2024-01-01'' = 10
   \<and> transformHistoricalData UTC
     (example_chart [1704067200, 1704153600] [Some 1000000, Some 1100000]) ''5m''
     = Inr [''2024-01-01 00:00:00'' \<mapsto> example_bar 150 155 149 154 1000000,
            ''2024-01-02 00:00:00'' \<mapsto> example_bar 151 156 150 155 1100000]
   \<and> Format_datetime UTC 1704067200 = ''2024-01-01 00:00:00''
   \<and> length ''2024-01-01 00:00:00'' = 19"
proof -
  let ?ts = "[1704067200, 1704153600 :: int]"
  let ?data = "example_chart ?ts [Some 1000000, Some 1100000]"
  have years: "\<And>j. j < length ?ts \<Longrightarrow> 0 \<le> Year UTC (?ts ! j) \<and> Year UTC (?ts ! j) \<le> 9999"
    by (auto simp add: less_Suc_eq Year_examples)
  have shape: "\<And>result others. Chart_Result ?data = result # others
      \<Longrightarrow> Timestamp result = ?ts"
    by (auto simp add: example_chart_def example_result_def)
  have k1: "''2024-01-01'' \<in> dom [''2024-01-01'' \<mapsto> example_bar 150 155 149 154 1000000,
            ''2024-01-02'' \<mapsto> example_bar 151 156 150 155 1100000]"
    by simp
  have k2: "''2024-01-01 00:00:00'' \<in>
      dom [''2024-01-01 00:00:00'' \<mapsto> example_bar 150 155 149 154 1000000,
           ''2024-01-02 00:00:00'' \<mapsto> example_bar 151 156 150 155 1100000]"
    by simp
  from transformHistoricalData_key_format [OF example_daily, THEN conjunct1, rule_format, OF k1]
  obtain result others j where "Chart_Result ?data = result # others"
    "j < length (Timestamp result)"
    "0 \<le> Year UTC (Timestamp result ! j) \<and> Year UTC (Timestamp result ! j) \<le> 9999
      \<longrightarrow> length ''2024-01-01'' = (if HasSuffix ''1d'' ''d'' \<or> HasSuffix ''1d'' ''wk''
                                     \<or> HasSuffix ''1d'' ''mo'' then 10 else 19)"
    by blast
  with shape years have "length ''2024-01-01'' = 10" by (simp add: HasSuffix_def)
  moreover
  from transformHistoricalData_key_format [OF example_minutes, THEN conjunct1, rule_format, OF k2]
  obtain result others j where "Chart_Result ?data = result # others"
    "j < length (Timestamp result)"
    "0 \<le> Year UTC (Timestamp result ! j) \<and> Year UTC (Timestamp result ! j) \<le> 9999
      \<longrightarrow> length ''2024-01-01 00:00:00'' = (if HasSuffix ''5m'' ''d'' \<or> HasSuffix ''5m'' ''wk''
                                     \<or> HasSuffix ''5m'' ''mo'' then 10 else 19)"
    by blast
  with shape years have "length ''2024-01-01 00:00:00'' = 19" by (simp add: HasSuffix_def)
  ultimately show ?thesis
    using example_daily example_minutes Year_examples Format_date_examples
      Format_datetime_examples by simp
qed



text \<open>
  C7. For a response whose chart result array is empty, \<open>transformHistoricalData\<close>
  returns the empty mapping and no panic, whatever the granularity string.
\<close>

theorem transformHistoricalData_empty_result:
  "transformHistoricalData loc (data\<lparr>Chart_Result := []\<rparr>) interval = Inr Map.empty"
  by (simp add: transformHistoricalData_def)

theorem transformHistoricalData_empty_result_witness:
  "transformHistoricalData UTC \<lparr>Chart_Result = [], Chart_Error = JNull\<rparr> ''1d'' = Inr Map.empty"
  using transformHistoricalData_empty_result
    [of UTC "\<lparr>Chart_Result = [], Chart_Error = JNull\<rparr>" "''1d''"]
  by simp

text \<open>
  C6. Each of the nine extraction entry points, given a decoded response whose top-level
  result array is empty, returns the zero value of its record (the nil map for the
  historical data) together with the error "no ... found for symbol: " followed by the
  symbol.
\<close>

theorem empty_result_is_error:
  "FetchInformation symbol (Decoded (r1\<lparr>info_Result := []\<rparr>))
     = (zero_YahooTickerInfo, Some (''no info found for symbol: '' @ symbol))
   \<and> FetchHistoricalData loc symbol rangeParam interval period1 period2
       (Decoded (r2\<lparr>Chart_Result := []\<rparr>))
     = Inr (None, Some (''no data found for symbol: '' @ symbol))
   \<and> FetchFinancialData symbol (Decoded (r3\<lparr>fin_Result := []\<rparr>))
     = (zero_FinancialData, Some (''no financial data found for symbol: '' @ symbol))
   \<and> FetchFinancialRatios symbol (Decoded (r3\<lparr>fin_Result := []\<rparr>))
     = (zero_FinancialRatios, Some (''no financial ratios found for symbol: '' @ symbol))
   \<and> FetchKeyStatistics symbol (Decoded (r3\<lparr>fin_Result := []\<rparr>))
     = (zero_FinancialSummary, Some (''no key statistics found for symbol: '' @ symbol))
   \<and> FetchIncomeStatement symbol (Decoded (r3\<lparr>fin_Result := []\<rparr>))
     = (zero_IncomeStatement, Some (''no income statement found for symbol: '' @ symbol))
   \<and> FetchBalanceSheet symbol (Decoded (r3\<lparr>fin_Result := []\<rparr>))
     = (zero_BalanceSheet, Some (''no balance sheet found for symbol: '' @ symbol))
   \<and> FetchCashFlow symbol (Decoded (r3\<lparr>fin_Result := []\<rparr>))
     = (zero_CashFlow, Some (''no cash flow found for symbol: '' @ symbol))
   \<and> FetchDividendInfo symbol (Decoded (r4\<lparr>div_Result := []\<rparr>))
     = (zero_DividendInfo, Some (''no dividend info found for symbol: '' @ symbol))"
  by (simp add: FetchInformation_def FetchHistoricalData_def FetchFinancialData_def
      FetchFinancialRatios_def FetchKeyStatistics_def FetchIncomeStatement_def
      FetchBalanceSheet_def FetchCashFlow_def FetchDividendInfo_def decode_failure_def)

theorem empty_result_is_error_witness:
  "FetchInformation ''AAPL'' (Decoded \<lparr>info_Result = [], info_Error = JNull\<rparr>)
     = (zero_YahooTickerInfo, Some ''no info found for symbol: AAPL'')
   \<and> FetchHistoricalData UTC ''AAPL'' ''1y'' ''1d'' [] []
       (Decoded \<lparr>Chart_Result = [], Chart_Error = JNull\<rparr>)
     = Inr (None, Some ''no data found for symbol: AAPL'')
   \<and> FetchFinancialData ''AAPL'' (Decoded \<lparr>fin_Result = [], fin_Error = JNull\<rparr>)
     = (zero_FinancialData, Some ''no financial data found for symbol: AAPL'')
   \<and> FetchDividendInfo ''AAPL'' (Decoded \<lparr>div_Result = [], div_Error = JNull\<rparr>)
     = (zero_DividendInfo, Some ''no dividend info found for symbol: AAPL'')"
  using empty_result_is_error
    [of "''AAPL''" "\<lparr>info_Result = [], info_Error = JNull\<rparr>" UTC "''1y''" "''1d''" "[]" "[]"
        "\<lparr>Chart_Result = [], Chart_Error = JNull\<rparr>" "\<lparr>fin_Result = [], fin_Error = JNull\<rparr>"
        "\<lparr>div_Result = [], div_Error = JNull\<rparr>"]
  by simp

section \<open>Verified properties: session bootstrap\<close>

lemma count_list_replicate_other: "x \<noteq> y \<Longrightarrow> count_list (replicate n x) y = 0"
  by (induction n) simp_all

lemma Get_with_crumb:
  "crumb (client w) \<noteq> [] \<Longrightarrow>
   Get net w = (w\<lparr>requests := requests w @ [DataEndpoint]\<rparr>, crumb (client w))"
  by (simp add: Get_def getCrumb_def)

lemma Get_seq_with_crumb:
  "crumb (client w) \<noteq> [] \<Longrightarrow>
   Get_seq net n w = (w\<lparr>requests := requests w @ replicate n DataEndpoint\<rparr>,
                      replicate n (crumb (client w)))"
proof (induction n arbitrary: w)
  case 0
  show ?case by simp
next
  case (Suc n)
  let ?w = "w\<lparr>requests := requests w @ [DataEndpoint]\<rparr>"
  have "crumb (client ?w) \<noteq> []" using Suc.prems by simp
  from Suc.IH [OF this] Suc.prems show ?case
    by (simp add: Get_with_crumb replicate_app_Cons_same)
qed

lemma Get_first_use:
  assumes "cookies (client w) = []" and "crumb (client w) = []" and "requests w = []"
    and "crumb_reply net 1 = Some body"
  shows "Get net w =
           (\<lparr> client = \<lparr> cookies = (case cookie_reply net 0 of None \<Rightarrow> [] | Some cs \<Rightarrow> cs),
                         crumb = body \<rparr>,
              requests = [CookieEndpoint, CrumbEndpoint, DataEndpoint] \<rparr>, body)"
  using assms
  by (cases w; cases "client w")
     (simp add: Get_def getCrumb_def getCookie_def Let_def split: option.splits)

text \<open>
  The interleaving model agrees with the source's functions on a caller that runs alone:
  seven steps of one caller, taken without interruption, are one call of \<open>Get\<close>.
\<close>

lemma thread_runs_Get:
  assumes "i < length pcs" and "pcs ! i = AtGetCrumb"
  shows "run net (replicate 7 i) (pcs, w) =
           (case Get net w of (w', c) \<Rightarrow> (pcs[i := Returned c], w'))"
  using assms
  by (simp add: eval_nat_numeral Get_def getCrumb_def getCookie_def Let_def
      split: option.splits)

text \<open>
  Callers that perform first use one after another (each returns from \<open>Get\<close> before the
  next enters; there are \<open>Suc n\<close> of them): once the first crumb request is answered
  with a non-empty body, one cookie request and one crumb request are issued in total and
  every caller attaches that crumb. The tests of the stored values suffice here.
\<close>

lemma sequential_first_use:
  assumes "cookies (client w) = []" and "crumb (client w) = []" and "requests w = []"
    and "crumb_reply net 1 = Some body" and "body \<noteq> []"
  shows "(case Get_seq net (Suc n) w of (w', cs) \<Rightarrow>
            count_list (requests w') CookieEndpoint = 1
            \<and> count_list (requests w') CrumbEndpoint = 1
            \<and> cs = replicate (Suc n) body
            \<and> crumb (client w') = body)"
proof -
  let ?w1 = "\<lparr> client = \<lparr> cookies = (case cookie_reply net 0 of None \<Rightarrow> [] | Some cs \<Rightarrow> cs),
                         crumb = body \<rparr>,
              requests = [CookieEndpoint, CrumbEndpoint, DataEndpoint] \<rparr>"
  have 1: "Get net w = (?w1, body)" using assms(1-4) by (rule Get_first_use)
  have "crumb (client ?w1) \<noteq> []" using assms(5) by simp
  from Get_seq_with_crumb [OF this, of net n]
  show ?thesis by (simp add: 1 count_list_replicate_other)
qed

text \<open>
  C1. The claim: for callers that overlap on first use, exactly one cookie request and
  exactly one crumb request are issued in total, behind a one-shot gate, and all callers
  observe the same crumb. The code does not keep it: \<open>getCrumb\<close> and \<open>getCookie\<close> test
  the stored value and then fetch, with nothing between the test and the store, while
  \<open>getClient\<close> beside them creates the client behind \<open>sync.Once\<close>. Two callers on first
  use, on a network where every exchange succeeds, both pass the tests before either has
  stored anything: two cookie requests and two crumb requests are issued, and the two
  callers attach different crumbs to their data requests.
\<close>

theorem bootstrap_race:
  "run example_network example_schedule ([AtGetCrumb, AtGetCrumb], fresh)
     = ([Returned ''crumb-1'', Returned ''crumb-4''],
        \<lparr> client = \<lparr> cookies = [''A3=d''], crumb = ''crumb-4'' \<rparr>,
          requests = [CookieEndpoint, CrumbEndpoint, DataEndpoint,
                      CookieEndpoint, CrumbEndpoint, DataEndpoint] \<rparr>)
   \<and> count_list [CookieEndpoint, CrumbEndpoint, DataEndpoint,
                  CookieEndpoint, CrumbEndpoint, DataEndpoint] CrumbEndpoint = 2
   \<and> count_list [CookieEndpoint, CrumbEndpoint, DataEndpoint,
                  CookieEndpoint, CrumbEndpoint, DataEndpoint] CookieEndpoint = 2"
  by (simp add: example_network_def example_schedule_def fresh_def digits.simps)

end
